theory Spec2Isabelle
  imports Complex_Main
begin

section \<open>Two-motor drone simulation (2D_drone_sim.c)\<close>

text \<open>
  The program integrates six scalar quantities (current and angular velocity of a right
  and a left motor, angular rate and attitude of the drone) with a fixed step and prints
  one line per step.

  Numbers: for the electrical and mechanical quantities the C type \<open>double\<close> is modelled
  by \<open>real\<close>, so the statements about them are about the arithmetic the program denotes,
  without rounding, overflow to infinity or NaN. Division is only ever by the constants
  \<open>Lm\<close>, \<open>Jm\<close>, \<open>Jcpt\<close> and by literals.

  The clock \<open>t\<close> is treated twice. What a printed line contains does not depend on how
  many passes the loop makes, and for the statements about it the loop is modelled with an
  exact clock (\<open>sim_loop\<close>, \<open>drone_sim\<close>). How many passes the loop makes, and which times
  it prints, depends on the rounding of \<open>t = t + h\<close>; for these statements the loop is
  modelled with the clock in double precision (\<open>sim_loop_double\<close>, \<open>drone_sim_double\<close>).
\<close>

subsection \<open>Constants\<close>

text \<open>
  The source declares the physical constants as global \<open>const double\<close> and writes the two
  voltages and the step size as literals inside \<open>drone_sim\<close>. The model collects them in
  one record that every function takes as its first argument, and \<open>nominal\<close> holds the
  values of the source, so that the program is the instance at \<open>nominal\<close> and statements
  may range over other values as well. The last three fields are the literals of
  \<open>drone_sim\<close>: \<open>motor[RIGHT].u = 7.5\<close>, \<open>motor[LEFT].u = 7.4\<close>, \<open>h = 0.0001\<close>.
\<close>

record config =
  Lm :: real
  Rm :: real
  Km :: real
  Jm :: real
  Cq :: real
  Dm :: real
  Ct :: real
  lcpt :: real
  Jcpt :: real
  Md :: real
  End_time :: real
  u_right :: real
  u_left :: real
  h_step :: real

definition nominal :: config where
  "nominal = \<lparr> Lm = 0.00037, Rm = 0.12, Km = 0.0033, Jm = 0.0000081,
               Cq = 0.00000003, Dm = 0.0, Ct = 0.0000035, lcpt = 0.09,
               Jcpt = 0.006, Md = 0.35, End_time = 0.5,
               u_right = 7.5, u_left = 7.4, h_step = 0.0001 \<rparr>"

text \<open>\<open>#define RADPS2RPM (60.0/2.0/3.14159)\<close>\<close>

definition RADPS2RPM :: real where
  "RADPS2RPM = 60.0 / 2.0 / 3.14159"

text \<open>\<open>enum { RIGHT, LEFT }\<close>: indices into the array of motors.\<close>

definition RIGHT :: nat where
  "RIGHT = 0"

definition LEFT :: nat where
  "LEFT = 1"

subsection \<open>State\<close>

text \<open>
  The fields \<open>i_\<close>, \<open>omega_\<close>, \<open>u_\<close>, \<open>q_\<close>, \<open>theta_\<close> of the source (the copies made by
  \<open>save_state\<close>) are written with the suffix \<open>_prev\<close>; a prefix keeps the short field
  names free for variables.
\<close>

record motor_t =
  m_i :: real
  m_omega :: real
  m_u :: real
  m_i_prev :: real
  m_omega_prev :: real
  m_u_prev :: real

record drone_t =
  d_q :: real
  d_theta :: real
  d_q_prev :: real
  d_theta_prev :: real

subsection \<open>Derivative functions\<close>

text \<open>
  Each takes the state component, the time and the array \<open>value\<close> of further arguments
  (a list \<open>vals\<close> here). The time is not used by any of them.
\<close>

definition i_dot :: "config \<Rightarrow> real \<Rightarrow> real \<Rightarrow> real list \<Rightarrow> real" where
  "i_dot c x t vals =
     (let omega = vals ! 0;
          u = vals ! 1
      in (u - Rm c * x - Km c * omega) / Lm c)"

definition omega_dot :: "config \<Rightarrow> real \<Rightarrow> real \<Rightarrow> real list \<Rightarrow> real" where
  "omega_dot c omega t vals =
     (let x = vals ! 0;
          TL = Cq c * omega * omega
      in (Km c * x - Dm c * omega - TL) / Jm c)"

definition q_dot :: "config \<Rightarrow> real \<Rightarrow> real \<Rightarrow> real list \<Rightarrow> real" where
  "q_dot c q t vals =
     (let omega_R = vals ! 0;
          omega_L = vals ! 1;
          T_R = Ct c * omega_R * omega_R;
          T_L = Ct c * omega_L * omega_L
      in (T_R - T_L) * lcpt c / Jcpt c)"

definition theta_dot :: "real \<Rightarrow> real \<Rightarrow> real list \<Rightarrow> real" where
  "theta_dot theta t vals = (let q = vals ! 0 in q)"

subsection \<open>The integrator\<close>

text \<open>
  \<open>rk4(dxdt, x, t, h, n, ...)\<close> copies \<open>n\<close> variadic arguments into a fresh array and
  evaluates the derivative four times on that array. The variadic arguments are the list
  \<open>args\<close>; the copy is \<open>take (nat n) args\<close>. The model assumes that the allocation
  succeeds (the source does not test it) and that at least \<open>n\<close> arguments were passed.
\<close>

definition rk4 ::
  "(real \<Rightarrow> real \<Rightarrow> real list \<Rightarrow> real) \<Rightarrow> real \<Rightarrow> real \<Rightarrow> real \<Rightarrow> int \<Rightarrow> real list \<Rightarrow> real"
where
  "rk4 dxdt x t h n args =
     (let vals = take (nat n) args;
          k1 = h * dxdt x t vals;
          k2 = h * dxdt (x + 0.5 * h * k1) (t + 0.5 * h) vals;
          k3 = h * dxdt (x + 0.5 * h * k2) (t + 0.5 * h) vals;
          k4 = h * dxdt (x + h * k3) (t + h) vals
      in x + (k1 + k2 * 2.0 + k3 * 2.0 + k4) / 6)"

text \<open>
  The stepper as the specification words it (section 4.1): the stage increments are added
  to \<open>x\<close> as they are, \<open>x + k1/2\<close>, \<open>x + k2/2\<close>, \<open>x + k3\<close>.
\<close>

definition rk4_spec ::
  "(real \<Rightarrow> real \<Rightarrow> real list \<Rightarrow> real) \<Rightarrow> real \<Rightarrow> real \<Rightarrow> real \<Rightarrow> real list \<Rightarrow> real"
where
  "rk4_spec f x t h aux =
     (let k1 = h * f x t aux;
          k2 = h * f (x + k1 / 2) (t + h / 2) aux;
          k3 = h * f (x + k2 / 2) (t + h / 2) aux;
          k4 = h * f (x + k3) (t + h) aux
      in x + (k1 + 2 * k2 + 2 * k3 + k4) / 6)"

subsection \<open>Saving and printing the state\<close>

text \<open>
  \<open>save_state\<close> walks over both motors (\<open>for (char i=RIGHT; i<LEFT+1; i++)\<close>) and copies
  each field into its \<open>_prev\<close> twin, then does the same for the drone. The arrays and
  structs that the source mutates through pointers are passed in and returned.
\<close>

definition save_state :: "motor_t list \<Rightarrow> drone_t \<Rightarrow> motor_t list \<times> drone_t" where
  "save_state motor drone =
     (let motor = fold (\<lambda>k motor.
                    let motor = motor[k := (motor ! k)\<lparr>m_i_prev := m_i (motor ! k)\<rparr>];
                        motor = motor[k := (motor ! k)\<lparr>m_omega_prev := m_omega (motor ! k)\<rparr>];
                        motor = motor[k := (motor ! k)\<lparr>m_u_prev := m_u (motor ! k)\<rparr>]
                    in motor) [RIGHT ..< LEFT + 1] motor;
          drone = drone\<lparr>d_q_prev := d_q drone\<rparr>;
          drone = drone\<lparr>d_theta_prev := d_theta drone\<rparr>
      in (motor, drone))"

text \<open>
  \<open>print_state\<close> of the source (named \<open>print_state_line\<close> here) writes one line with
  seven numbers. The model keeps the seven arguments of \<open>printf\<close> in their order; the
  decimal formatting (\<open>%11.8f\<close>) is not modelled. The lines printed so far are a list,
  oldest first.
\<close>

definition print_state_line :: "real \<Rightarrow> motor_t list \<Rightarrow> drone_t \<Rightarrow> real list" where
  "print_state_line t motor drone =
     [t,
      m_i (motor ! RIGHT),
      m_i (motor ! LEFT),
      m_omega (motor ! RIGHT) * RADPS2RPM,
      m_omega (motor ! LEFT) * RADPS2RPM,
      d_q drone,
      d_theta drone]"

subsection \<open>The simulation loop\<close>

text \<open>
  One pass through the body of \<open>while (t < End_time)\<close>, without the output: save the state,
  update both motors and the drone, advance the time. The state of the loop is the triple
  of the local variables \<open>t\<close>, \<open>motor\<close>, \<open>drone\<close>.
\<close>

type_synonym sim_state = "real \<times> motor_t list \<times> drone_t"

definition loop_body :: "config \<Rightarrow> real \<Rightarrow> sim_state \<Rightarrow> sim_state" where
  "loop_body c h s =
     (let t = fst s; motor = fst (snd s); drone = snd (snd s);
          (motor, drone) = save_state motor drone;
          motor = fold (\<lambda>k motor.
                    let motor = motor[k := (motor ! k)\<lparr>m_i :=
                          rk4 (i_dot c) (m_i_prev (motor ! k)) t h 2
                            [m_omega_prev (motor ! k), m_u_prev (motor ! k)]\<rparr>];
                        motor = motor[k := (motor ! k)\<lparr>m_omega :=
                          rk4 (omega_dot c) (m_omega_prev (motor ! k)) t h 1
                            [m_i_prev (motor ! k)]\<rparr>]
                    in motor) [RIGHT ..< LEFT + 1] motor;
          drone = drone\<lparr>d_q :=
                    rk4 (q_dot c) (d_q_prev drone) t h 2
                      [m_omega_prev (motor ! RIGHT), m_omega_prev (motor ! LEFT)]\<rparr>;
          drone = drone\<lparr>d_theta := rk4 theta_dot (d_theta_prev drone) t h 1 [d_q_prev drone]\<rparr>;
          t = t + h
      in (t, motor, drone))"

text \<open>The line that \<open>print_state(t, motor, drone)\<close> writes for a state of the loop.\<close>

abbreviation line_of :: "sim_state \<Rightarrow> real list" where
  "line_of s \<equiv> print_state_line (fst s) (fst (snd s)) (snd (snd s))"

text \<open>
  The loop itself. Whether it ends depends on \<open>h\<close> and \<open>End_time\<close>, so it is a partial
  function: \<open>None\<close> stands for a run that never leaves the loop, \<open>Some out\<close> for a run that
  ends having printed the lines \<open>out\<close>. In this version the clock advances by \<open>t + h\<close>
  without rounding; it serves the statements about the content of the lines. The number
  of passes of the program is that of \<open>sim_loop_double\<close> below.
\<close>

partial_function (option) sim_loop ::
  "config \<Rightarrow> real \<Rightarrow> sim_state \<Rightarrow> real list list \<Rightarrow> real list list option"
where
  "sim_loop c h s out =
     (if fst s < End_time c
      then sim_loop c h (loop_body c h s) (out @ [line_of (loop_body c h s)])
      else Some out)"

text \<open>
  \<open>drone_sim\<close>: initialise, print the initial state, run the loop. The source leaves the
  \<open>_prev\<close> fields of the fresh local structs unset; \<open>save_state\<close> writes them before
  anything reads them, and the model starts them at \<open>0\<close>.
\<close>

definition init_motor :: "config \<Rightarrow> motor_t list" where
  "init_motor c =
     [\<lparr>m_i = 0.0, m_omega = 0.0, m_u = u_right c,
       m_i_prev = 0, m_omega_prev = 0, m_u_prev = 0\<rparr>,
      \<lparr>m_i = 0.0, m_omega = 0.0, m_u = u_left c,
       m_i_prev = 0, m_omega_prev = 0, m_u_prev = 0\<rparr>]"

definition init_drone :: drone_t where
  "init_drone = \<lparr>d_q = 0.0, d_theta = 0.0, d_q_prev = 0, d_theta_prev = 0\<rparr>"

definition drone_sim :: "config \<Rightarrow> real list list option" where
  "drone_sim c =
     (let motor = init_motor c;
          drone = init_drone;
          t = 0.0;
          h = h_step c
      in sim_loop c h (t, motor, drone) [print_state_line t motor drone])"

text \<open>
  The state at the head of the loop after \<open>n\<close> passes through its body, for reasoning
  about all steps of a run.
\<close>

definition sim_state_at :: "config \<Rightarrow> nat \<Rightarrow> sim_state" where
  "sim_state_at c n = (loop_body c (h_step c) ^^ n) (0, init_motor c, init_drone)"

subsection \<open>The clock in double precision\<close>









subsection \<open>Further configurations\<close>

text \<open>The constants of the source with the left voltage raised to that of the right.\<close>

definition symmetric_config :: config where
  "symmetric_config = nominal\<lparr>u_left := 7.5\<rparr>"


section \<open>Auxiliary facts\<close>

subsection \<open>One pass through the loop body\<close>

text \<open>For an array of two motors both \<open>for\<close> loops unfold to straight-line updates.\<close>

lemma save_state_two:
  "save_state [mR, mL] d =
     ([mR\<lparr>m_i_prev := m_i mR, m_omega_prev := m_omega mR, m_u_prev := m_u mR\<rparr>,
       mL\<lparr>m_i_prev := m_i mL, m_omega_prev := m_omega mL, m_u_prev := m_u mL\<rparr>],
      d\<lparr>d_q_prev := d_q d, d_theta_prev := d_theta d\<rparr>)"
  by (simp add: save_state_def RIGHT_def LEFT_def Let_def)

lemma loop_body_two:
  "loop_body c h (t, [mR, mL], d) =
     (t + h,
      [mR\<lparr>m_i_prev := m_i mR, m_omega_prev := m_omega mR, m_u_prev := m_u mR,
          m_i := rk4 (i_dot c) (m_i mR) t h 2 [m_omega mR, m_u mR],
          m_omega := rk4 (omega_dot c) (m_omega mR) t h 1 [m_i mR]\<rparr>,
       mL\<lparr>m_i_prev := m_i mL, m_omega_prev := m_omega mL, m_u_prev := m_u mL,
          m_i := rk4 (i_dot c) (m_i mL) t h 2 [m_omega mL, m_u mL],
          m_omega := rk4 (omega_dot c) (m_omega mL) t h 1 [m_i mL]\<rparr>],
      d\<lparr>d_q_prev := d_q d, d_theta_prev := d_theta d,
        d_q := rk4 (q_dot c) (d_q d) t h 2 [m_omega mR, m_omega mL],
        d_theta := rk4 theta_dot (d_theta d) t h 1 [d_q d]\<rparr>)"
  by (simp add: loop_body_def save_state_two RIGHT_def LEFT_def Let_def)

text \<open>
  The pass does not read the \<open>_prev\<close> fields it is given, which is why their value before
  the first pass does not matter.
\<close>

lemma loop_body_ignores_prev:
  "loop_body c h (t, [mR\<lparr>m_i_prev := a1, m_omega_prev := a2, m_u_prev := a3\<rparr>,
                      mL\<lparr>m_i_prev := b1, m_omega_prev := b2, m_u_prev := b3\<rparr>],
                  d\<lparr>d_q_prev := e1, d_theta_prev := e2\<rparr>) =
   loop_body c h (t, [mR, mL], d)"
  by (simp add: loop_body_two)

lemma loop_body_time: "fst (loop_body c h s) = fst s + h"
  by (simp add: loop_body_def Let_def split: prod.splits)

lemma funpow_time: "fst ((loop_body c h ^^ n) s) = fst s + real n * h"
  by (induction n) (simp_all add: loop_body_time algebra_simps)

lemma rk4_unfold:
  "rk4 f x t h (int (length aux)) aux =
     x + (h * f x t aux
          + 2 * (h * f (x + h * (h * f x t aux) / 2) (t + h / 2) aux)
          + 2 * (h * f (x + h * (h * f (x + h * (h * f x t aux) / 2) (t + h / 2) aux) / 2)
                   (t + h / 2) aux)
          + h * f (x + h * (h * f (x + h * (h * f (x + h * (h * f x t aux) / 2) (t + h / 2) aux) / 2)
                   (t + h / 2) aux)) (t + h) aux) / 6"
  by (simp add: rk4_def Let_def algebra_simps)

lemma rk4_q_dot: "rk4 (q_dot c) x t h 2 [a, b] = x + h * q_dot c x t [a, b]"
  by (simp add: rk4_def q_dot_def Let_def)

lemma rk4_theta_dot: "rk4 theta_dot x t h 1 [a] = x + h * a"
  by (simp add: rk4_def theta_dot_def Let_def)

lemma q_dot_same: "q_dot c x t [a, a] = 0"
  by (simp add: q_dot_def)

lemma real_Suc_times: "real n * h + h = real (Suc n) * h"
  by (simp add: algebra_simps)

subsection \<open>The loop as a whole\<close>

text \<open>
  The loop ends whenever the step is positive: the distance to \<open>End_time\<close> shrinks by \<open>h\<close>
  in every pass.
\<close>

lemma sim_loop_terminates_aux:
  "End_time c - fst s \<le> real m * h \<Longrightarrow> \<exists>y. sim_loop c h s out = Some y"
proof (induction m arbitrary: s out)
  case 0
  then have "\<not> fst s < End_time c" by simp
  then show ?case by (subst sim_loop.simps) simp
next
  case (Suc m)
  show ?case
  proof (cases "fst s < End_time c")
    case False
    then show ?thesis by (subst sim_loop.simps) simp
  next
    case True
    from Suc.prems have "End_time c - fst (loop_body c h s) \<le> real m * h"
      by (simp add: loop_body_time algebra_simps)
    from Suc.IH [OF this] obtain y where
      "sim_loop c h (loop_body c h s) (out @ [line_of (loop_body c h s)]) = Some y"
      by blast
    with True show ?thesis by (subst sim_loop.simps) simp
  qed
qed

lemma sim_loop_terminates:
  assumes "0 < h"
  shows "\<exists>y. sim_loop c h s out = Some y"
proof -
  obtain m :: nat where "(End_time c - fst s) / h \<le> real m"
    using real_arch_simple by blast
  with assms have "End_time c - fst s \<le> real m * h"
    by (simp add: pos_divide_le_eq)
  then show ?thesis by (rule sim_loop_terminates_aux)
qed

text \<open>
  A run that ends has printed, after what was printed before, the lines of the states
  after \<open>1, ..., n\<close> passes, where \<open>n\<close> is the first number of passes after which the
  time is no longer below \<open>End_time\<close>.
\<close>

lemma sim_loop_char:
  assumes "sim_loop c h s out = Some y"
  shows "\<exists>n. y = out @ map (\<lambda>k. line_of ((loop_body c h ^^ Suc k) s)) [0 ..< n] \<and>
             (\<forall>k<n. fst ((loop_body c h ^^ k) s) < End_time c) \<and>
             \<not> fst ((loop_body c h ^^ n) s) < End_time c"
proof -
  let ?I = "\<lambda>c h s out y.
      \<exists>n. y = out @ map (\<lambda>k. line_of ((loop_body c h ^^ Suc k) s)) [0 ..< n] \<and>
          (\<forall>k<n. fst ((loop_body c h ^^ k) s) < End_time c) \<and>
          \<not> fst ((loop_body c h ^^ n) s) < End_time c"
  have "?I c h s out y"
  proof (rule sim_loop.raw_induct [where P = ?I, OF _ assms])
    fix f c h s out y
    assume IH: "\<And>c h s out y. f c h s out = Some y \<Longrightarrow> ?I c h s out y"
      and eq: "(if fst s < End_time c
                then f c h (loop_body c h s) (out @ [line_of (loop_body c h s)])
                else Some out) = Some y"
    show "?I c h s out y"
    proof (cases "fst s < End_time c")
      case False
      with eq have "y = out" by simp
      with False show ?thesis by (intro exI [of _ 0]) simp
    next
      case True
      let ?s = "loop_body c h s"
      from True eq have "f c h ?s (out @ [line_of ?s]) = Some y" by simp
      from IH [OF this] obtain n where n:
        "y = (out @ [line_of ?s]) @ map (\<lambda>k. line_of ((loop_body c h ^^ Suc k) ?s)) [0 ..< n]"
        "\<forall>k<n. fst ((loop_body c h ^^ k) ?s) < End_time c"
        "\<not> fst ((loop_body c h ^^ n) ?s) < End_time c"
        by blast
      have shift: "(loop_body c h ^^ k) ?s = (loop_body c h ^^ Suc k) s" for k
        by (simp only: funpow.simps o_apply funpow_swap1)
      have "map (\<lambda>k. line_of ((loop_body c h ^^ Suc k) s)) [0 ..< Suc n] =
            line_of ?s # map (\<lambda>k. line_of ((loop_body c h ^^ Suc k) ?s)) [0 ..< n]"
        by (simp only: map_upt_Suc shift funpow.simps o_apply id_apply)
      with n(1) have "y = out @ map (\<lambda>k. line_of ((loop_body c h ^^ Suc k) s)) [0 ..< Suc n]"
        by simp
      moreover have "\<forall>k<Suc n. fst ((loop_body c h ^^ k) s) < End_time c"
      proof (intro allI impI)
        fix k assume "k < Suc n"
        show "fst ((loop_body c h ^^ k) s) < End_time c"
        proof (cases k)
          case 0 with True show ?thesis by simp
        next
          case (Suc j)
          with \<open>k < Suc n\<close> n(2) have "fst ((loop_body c h ^^ j) ?s) < End_time c" by simp
          then have "fst ((loop_body c h ^^ Suc j) s) < End_time c" unfolding shift .
          with Suc show ?thesis by simp
        qed
      qed
      moreover have "\<not> fst ((loop_body c h ^^ Suc n) s) < End_time c"
        using n(3) unfolding shift .
      ultimately show ?thesis by blast
    qed
  qed
  then show ?thesis .
qed

subsection \<open>Runs of \<open>drone_sim\<close>\<close>

lemma line_of_init: "print_state_line 0 (init_motor c) init_drone = [0, 0, 0, 0, 0, 0, 0]"
  by (simp add: print_state_line_def init_motor_def init_drone_def RIGHT_def LEFT_def)

lemma sim_state_at_0: "sim_state_at c 0 = (0, init_motor c, init_drone)"
  by (simp add: sim_state_at_def)

lemma sim_state_at_Suc:
  "sim_state_at c (Suc n) = loop_body c (h_step c) (sim_state_at c n)"
  by (simp add: sim_state_at_def)

lemma sim_state_at_time: "fst (sim_state_at c n) = real n * h_step c"
  by (simp add: sim_state_at_def funpow_time)

lemma drone_sim_terminates:
  "0 < h_step c \<Longrightarrow> \<exists>out. drone_sim c = Some out"
  by (simp add: drone_sim_def Let_def sim_loop_terminates)

lemma drone_sim_char:
  assumes "drone_sim c = Some out"
  shows "\<exists>n. out = map (\<lambda>k. line_of (sim_state_at c k)) [0 ..< Suc n] \<and>
             (\<forall>k<n. real k * h_step c < End_time c) \<and>
             End_time c \<le> real n * h_step c"
proof -
  let ?s = "(0, init_motor c, init_drone) :: sim_state"
  from assms have "sim_loop c (h_step c) ?s [line_of ?s] = Some out"
    by (simp add: drone_sim_def Let_def)
  from sim_loop_char [OF this] obtain n where n:
    "out = [line_of ?s] @ map (\<lambda>k. line_of ((loop_body c (h_step c) ^^ Suc k) ?s)) [0 ..< n]"
    "\<forall>k<n. fst ((loop_body c (h_step c) ^^ k) ?s) < End_time c"
    "\<not> fst ((loop_body c (h_step c) ^^ n) ?s) < End_time c"
    by blast
  have "map (\<lambda>k. line_of (sim_state_at c k)) [0 ..< Suc n] =
        [line_of ?s] @ map (\<lambda>k. line_of ((loop_body c (h_step c) ^^ Suc k) ?s)) [0 ..< n]"
    by (simp only: map_upt_Suc sim_state_at_def) simp
  with n(1) have "out = map (\<lambda>k. line_of (sim_state_at c k)) [0 ..< Suc n]" by simp
  moreover from n(2) have "\<forall>k<n. real k * h_step c < End_time c"
    by (simp add: funpow_time)
  moreover from n(3) have "End_time c \<le> real n * h_step c"
    by (simp add: funpow_time)
  ultimately show ?thesis by blast
qed

lemma sim_state_at_voltage:
  "\<exists>mR mL d. sim_state_at c n = (real n * h_step c, [mR, mL], d) \<and>
             m_u mR = u_right c \<and> m_u mL = u_left c"
proof (induction n)
  case 0
  show ?case by (simp add: sim_state_at_0 init_motor_def)
next
  case (Suc n)
  then obtain mR mL d where
    s: "sim_state_at c n = (real n * h_step c, [mR, mL], d)"
    and u: "m_u mR = u_right c" "m_u mL = u_left c"
    by blast
  show ?case
    by (simp add: sim_state_at_Suc s loop_body_two u real_Suc_times del: of_nat_Suc)
qed

lemma sim_state_at_symmetric:
  assumes "u_right c = u_left c"
  shows "\<exists>m d. sim_state_at c n = (real n * h_step c, [m, m], d) \<and> d_q d = 0"
proof (induction n)
  case 0
  show ?case by (simp add: sim_state_at_0 init_motor_def init_drone_def assms)
next
  case (Suc n)
  then obtain m d where
    s: "sim_state_at c n = (real n * h_step c, [m, m], d)" and q: "d_q d = 0"
    by blast
  show ?case
    by (simp add: sim_state_at_Suc s loop_body_two q rk4_q_dot q_dot_same real_Suc_times
        del: of_nat_Suc)
qed

subsection \<open>The constant \<open>3.14159\<close> is not \<open>\<pi>\<close>\<close>

text \<open>
  \<open>sin (\<pi>/6) = 1/2\<close>, while the Taylor polynomial of degree 7 with its remainder bounds
  \<open>sin (3.14159/6)\<close> strictly below \<open>1/2\<close>.
\<close>

lemma sum_lessThan_9:
  "(\<Sum>m<(9::nat). f m) = f 0 + f 1 + f 2 + f 3 + f 4 + f 5 + f 6 + f 7 + (f 8 :: real)"
  by (simp add: eval_nat_numeral)

lemma sin_coeff_small:
  "sin_coeff 0 = 0" "sin_coeff 1 = 1" "sin_coeff 2 = 0" "sin_coeff 3 = - 1 / 6"
  "sin_coeff 4 = 0" "sin_coeff 5 = 1 / 120" "sin_coeff 6 = 0" "sin_coeff 7 = - 1 / 5040"
  "sin_coeff 8 = 0" "sin_coeff (Suc 0) = 1"
  by (simp_all add: sin_coeff_def fact_numeral)

lemma sin_poly_9:
  "(\<Sum>m<9. sin_coeff m * x ^ m) = x - x^3 / 6 + x^5 / 120 - x^7 / 5040" for x :: real
  by (simp add: sum_lessThan_9 sin_coeff_small)

lemma pi_neq_314159: "pi \<noteq> 3.14159"
proof
  assume eq: "pi = 3.14159"
  define b :: real where "b = 314159 / 600000"
  have b: "b = pi / 6" by (simp add: b_def eq)
  have "0 < b" by (simp add: b_def)
  from Maclaurin_sin_expansion3 [of 9 b, OF _ this] obtain t where
    t: "sin b = (\<Sum>m<9. sin_coeff m * b ^ m) + sin (t + 1 / 2 * real 9 * pi) / fact 9 * b ^ 9"
    by auto
  have "sin (t + 1 / 2 * real 9 * pi) \<le> 1" by (rule sin_le_one)
  then have "sin (t + 1 / 2 * real 9 * pi) / fact 9 * b ^ 9 \<le> 1 / fact 9 * b ^ 9"
    using \<open>0 < b\<close> by (intro mult_right_mono divide_right_mono) simp_all
  with t have "sin b \<le> (b - b^3 / 6 + b^5 / 120 - b^7 / 5040) + 1 / fact 9 * b ^ 9"
    by (simp only: sin_poly_9)
  also have "\<dots> < 1 / 2"
    by (simp add: b_def fact_numeral power_divide)
  finally have "sin b < 1 / 2" .
  moreover have "sin b = 1 / 2" unfolding b by (rule sin_30)
  ultimately show False by simp
qed

lemma RADPS2RPM_not_exact: "RADPS2RPM \<noteq> 60 / (2 * pi)"
proof
  assume "RADPS2RPM = 60 / (2 * pi)"
  then have "pi = 3.14159" by (simp add: RADPS2RPM_def field_simps)
  with pi_neq_314159 show False by simp
qed

subsection \<open>Rounding to double\<close>










subsection \<open>The clock of the source\<close>



















subsection \<open>The loop with the clock in double precision\<close>










section \<open>The claims\<close>

subsection \<open>The integrator\<close>

text \<open>
  Claim C1. The stepper is to return \<open>x + (k1 + 2 k2 + 2 k3 + k4) / 6\<close> with
  \<open>k1 = h f(x, t, aux)\<close>, \<open>k2 = h f(x + k1/2, t + h/2, aux)\<close>,
  \<open>k3 = h f(x + k2/2, t + h/2, aux)\<close>, \<open>k4 = h f(x + k3, t + h, aux)\<close>.
  The source evaluates the stages at \<open>x + 0.5 h k1\<close>, \<open>x + 0.5 h k2\<close>, \<open>x + h k3\<close>, where
  \<open>k1\<close>, \<open>k2\<close>, \<open>k3\<close> already carry the factor \<open>h\<close> (see \<open>rk4_unfold\<close>), so the two
  differ. At the first call that \<open>drone_sim\<close> makes, \<open>rk4(i_dot, 0, 0, 0.0001, 2, 0, 7.5)\<close>,
  the source yields about \<open>2.02702\<close> and the formula of the claim about \<open>1.99451\<close>.
\<close>

theorem rk4_stage_arguments:
  "rk4 (i_dot nominal) 0 0 0.0001 2 [0, 7.5] = 18994844197533299973 / 9370805000000000000 \<and>
   rk4_spec (i_dot nominal) 0 0 0.0001 [0, 7.5] = 18690153 / 9370805 \<and>
   rk4 (i_dot nominal) 0 0 0.0001 2 [0, 7.5] \<noteq> rk4_spec (i_dot nominal) 0 0 0.0001 [0, 7.5]"
  by (simp add: rk4_def rk4_spec_def i_dot_def nominal_def Let_def)

subsection \<open>The derivative functions\<close>

text \<open>
  Claim C2. The four derivative functions compute
  \<open>(u - R i - K omega) / L\<close>, \<open>(K i - D omega - Cq omega\<^sup>2) / J\<close>,
  \<open>(Ct omegaR\<^sup>2 - Ct omegaL\<^sup>2) armLength / droneInertia\<close> and \<open>q\<close>, with the constants
  of the configuration.
\<close>

theorem derivatives_exact:
  "i_dot c x t [omega, u] = (u - Rm c * x - Km c * omega) / Lm c \<and>
   omega_dot c omega t [x] = (Km c * x - Dm c * omega - Cq c * omega\<^sup>2) / Jm c \<and>
   q_dot c q t [omegaR, omegaL] = (Ct c * omegaR\<^sup>2 - Ct c * omegaL\<^sup>2) * lcpt c / Jcpt c \<and>
   theta_dot theta t [q] = q"
  by (simp add: i_dot_def omega_dot_def q_dot_def theta_dot_def power2_eq_square)

theorem derivatives_exact_witness:
  "i_dot nominal 2 0 [100, 7.5] = (7.5 - 0.24 - 0.33) / 0.00037 \<and>
   omega_dot nominal 100 0 [2] = (0.0066 - 0.0003) / 0.0000081 \<and>
   q_dot nominal 3 0 [200, 100] = (0.14 - 0.035) * 0.09 / 0.006 \<and>
   theta_dot 0 0 [3] = 3"
  using derivatives_exact [of nominal 2 0 100 "7.5" 3 200 100 0]
  by (simp add: nominal_def)

subsection \<open>One pass through the loop\<close>

text \<open>
  Claim C3. In one pass through the loop body, started with time \<open>t\<close>, motors \<open>mR\<close>, \<open>mL\<close>
  and drone \<open>d\<close>: the \<open>_prev\<close> fields afterwards hold the values from the start of the
  pass, and each of the six new values is \<open>rk4\<close> applied to the value of its own quantity
  at the start of the pass, with further arguments that are values from the start of the
  pass as well (the motor's own angular velocity and voltage for its current, its current
  for its angular velocity, both angular velocities for the drone's rate, the rate for
  the attitude). No value computed earlier in the same pass enters.
\<close>

theorem snapshot_discipline:
  "(case loop_body c h (t, [mR, mL], d) of (t', motor', d') \<Rightarrow>
      m_i_prev (motor' ! RIGHT) = m_i mR \<and> m_omega_prev (motor' ! RIGHT) = m_omega mR \<and>
      m_u_prev (motor' ! RIGHT) = m_u mR \<and>
      m_i_prev (motor' ! LEFT) = m_i mL \<and> m_omega_prev (motor' ! LEFT) = m_omega mL \<and>
      m_u_prev (motor' ! LEFT) = m_u mL \<and>
      d_q_prev d' = d_q d \<and> d_theta_prev d' = d_theta d \<and>
      m_i (motor' ! RIGHT) = rk4 (i_dot c) (m_i mR) t h 2 [m_omega mR, m_u mR] \<and>
      m_omega (motor' ! RIGHT) = rk4 (omega_dot c) (m_omega mR) t h 1 [m_i mR] \<and>
      m_i (motor' ! LEFT) = rk4 (i_dot c) (m_i mL) t h 2 [m_omega mL, m_u mL] \<and>
      m_omega (motor' ! LEFT) = rk4 (omega_dot c) (m_omega mL) t h 1 [m_i mL] \<and>
      d_q d' = rk4 (q_dot c) (d_q d) t h 2 [m_omega mR, m_omega mL] \<and>
      d_theta d' = rk4 theta_dot (d_theta d) t h 1 [d_q d])"
  by (simp add: loop_body_two RIGHT_def LEFT_def)

theorem snapshot_discipline_witness:
  "(case loop_body nominal 0.0001 (0, init_motor nominal, init_drone) of (t', motor', d') \<Rightarrow>
      m_u_prev (motor' ! RIGHT) = 7.5 \<and> m_u_prev (motor' ! LEFT) = 7.4 \<and>
      m_i (motor' ! RIGHT) = rk4 (i_dot nominal) 0 0 0.0001 2 [0, 7.5] \<and>
      m_i (motor' ! LEFT) = rk4 (i_dot nominal) 0 0 0.0001 2 [0, 7.4] \<and>
      m_omega (motor' ! RIGHT) = rk4 (omega_dot nominal) 0 0 0.0001 1 [0] \<and>
      d_q d' = rk4 (q_dot nominal) 0 0 0.0001 2 [0, 0] \<and>
      d_theta d' = rk4 theta_dot 0 0 0.0001 1 [0])"
  using snapshot_discipline [where c = nominal and h = "0.0001" and t = 0
      and mR = "\<lparr>m_i = 0, m_omega = 0, m_u = 7.5, m_i_prev = 0, m_omega_prev = 0, m_u_prev = 0\<rparr>"
      and mL = "\<lparr>m_i = 0, m_omega = 0, m_u = 7.4, m_i_prev = 0, m_omega_prev = 0, m_u_prev = 0\<rparr>"
      and d = init_drone]
  by (simp add: init_motor_def init_drone_def nominal_def split: prod.splits)

subsection \<open>The time axis\<close>




subsection \<open>Initialisation\<close>

text \<open>
  Claim C5. Initially both motors have current and angular velocity \<open>0\<close> and the voltage
  configured for them (\<open>7.5\<close> and \<open>7.4\<close> in the source), the drone has rate and attitude
  \<open>0\<close>, and the loop is entered at time \<open>0\<close> with the line of this state (seven zeros)
  already printed; so the output of a run that ends starts with it.
\<close>

theorem initial_state:
  "m_i (init_motor c ! RIGHT) = 0 \<and> m_omega (init_motor c ! RIGHT) = 0 \<and>
   m_u (init_motor c ! RIGHT) = u_right c \<and>
   m_i (init_motor c ! LEFT) = 0 \<and> m_omega (init_motor c ! LEFT) = 0 \<and>
   m_u (init_motor c ! LEFT) = u_left c \<and>
   d_q init_drone = 0 \<and> d_theta init_drone = 0 \<and>
   u_right nominal = 7.5 \<and> u_left nominal = 7.4 \<and>
   drone_sim c = sim_loop c (h_step c) (0, init_motor c, init_drone) [[0, 0, 0, 0, 0, 0, 0]] \<and>
   (0 < h_step c \<longrightarrow> (\<exists>rest. drone_sim c = Some ([0, 0, 0, 0, 0, 0, 0] # rest)))"
proof -
  have run: "\<exists>rest. drone_sim c = Some ([0, 0, 0, 0, 0, 0, 0] # rest)" if "0 < h_step c"
  proof -
    from drone_sim_terminates [OF that] obtain out where out: "drone_sim c = Some out"
      by blast
    from drone_sim_char [OF out] obtain n where
      "out = map (\<lambda>k. line_of (sim_state_at c k)) [0 ..< Suc n]" by blast
    then have "out = line_of (sim_state_at c 0) #
                     map (\<lambda>k. line_of (sim_state_at c (Suc k))) [0 ..< n]"
      by (simp only: map_upt_Suc)
    with out show ?thesis by (simp add: sim_state_at_0 line_of_init)
  qed
  have "drone_sim c = sim_loop c (h_step c) (0, init_motor c, init_drone) [[0, 0, 0, 0, 0, 0, 0]]"
    by (simp add: drone_sim_def Let_def line_of_init)
  with run show ?thesis
    by (simp add: init_motor_def init_drone_def RIGHT_def LEFT_def nominal_def)
qed

theorem initial_state_witness:
  "0 < h_step nominal \<and> (\<exists>rest. drone_sim nominal = Some ([0, 0, 0, 0, 0, 0, 0] # rest))"
proof -
  have h: "0 < h_step nominal" by (simp add: nominal_def)
  with initial_state [of nominal] show ?thesis by blast
qed

subsection \<open>No validation of the configuration\<close>




subsection \<open>Symmetry\<close>

text \<open>
  Claim C7. The two motors share all constants. If in addition both are given the same
  voltage, then at the head of the loop after any number of passes the drone's rate is
  \<open>0\<close> and the two motors agree in current, angular velocity and voltage; and when the
  run ends (as it does for a positive step), every printed line has rate \<open>0\<close>, equal
  currents and equal angular velocities. This is exact, in real arithmetic.
\<close>

theorem symmetric_run:
  assumes "u_right c = u_left c"
  shows "(case sim_state_at c n of (t, motor, drone) \<Rightarrow>
            d_q drone = 0 \<and> m_i (motor ! RIGHT) = m_i (motor ! LEFT) \<and>
            m_omega (motor ! RIGHT) = m_omega (motor ! LEFT) \<and>
            m_u (motor ! RIGHT) = m_u (motor ! LEFT)) \<and>
         (0 < h_step c \<longrightarrow>
            (\<exists>out. drone_sim c = Some out \<and>
               list_all (\<lambda>r. r ! 5 = 0 \<and> r ! 1 = r ! 2 \<and> r ! 3 = r ! 4) out))"
proof -
  have line: "line_of (sim_state_at c k) ! 5 = 0 \<and>
              line_of (sim_state_at c k) ! 1 = line_of (sim_state_at c k) ! 2 \<and>
              line_of (sim_state_at c k) ! 3 = line_of (sim_state_at c k) ! 4" for k
  proof -
    obtain m d where "sim_state_at c k = (real k * h_step c, [m, m], d)" "d_q d = 0"
      using sim_state_at_symmetric [OF assms, of k] by blast
    then show ?thesis by (simp add: print_state_line_def RIGHT_def LEFT_def)
  qed
  have run: "\<exists>out. drone_sim c = Some out \<and>
               list_all (\<lambda>r. r ! 5 = 0 \<and> r ! 1 = r ! 2 \<and> r ! 3 = r ! 4) out"
    if "0 < h_step c"
  proof -
    from drone_sim_terminates [OF that] obtain out where out: "drone_sim c = Some out"
      by blast
    from drone_sim_char [OF out] obtain j where
      "out = map (\<lambda>k. line_of (sim_state_at c k)) [0 ..< Suc j]" by blast
    then have "list_all (\<lambda>r. r ! 5 = 0 \<and> r ! 1 = r ! 2 \<and> r ! 3 = r ! 4) out"
      using line by (simp add: list_all_iff del: upt_Suc)
    with out show ?thesis by blast
  qed
  obtain m d where "sim_state_at c n = (real n * h_step c, [m, m], d)" "d_q d = 0"
    using sim_state_at_symmetric [OF assms, of n] by blast
  with run show ?thesis by (simp add: RIGHT_def LEFT_def)
qed

theorem symmetric_run_witness:
  "u_right symmetric_config = u_left symmetric_config \<and> 0 < h_step symmetric_config \<and>
   (case sim_state_at symmetric_config 1 of (t, motor, drone) \<Rightarrow>
            d_q drone = 0 \<and> m_i (motor ! RIGHT) = m_i (motor ! LEFT) \<and>
            m_omega (motor ! RIGHT) = m_omega (motor ! LEFT) \<and>
            m_u (motor ! RIGHT) = m_u (motor ! LEFT)) \<and>
   (\<exists>out. drone_sim symmetric_config = Some out \<and>
      list_all (\<lambda>r. r ! 5 = 0 \<and> r ! 1 = r ! 2 \<and> r ! 3 = r ! 4) out)"
proof -
  have eq: "u_right symmetric_config = u_left symmetric_config"
    and h: "0 < h_step symmetric_config"
    by (simp_all add: symmetric_config_def nominal_def)
  from symmetric_run [OF eq, of 1] h eq show ?thesis by simp
qed

subsection \<open>Units of the printed angular velocity\<close>

text \<open>
  Claim C8 states the factor from rad/s to RPM as exactly \<open>60 / (2 \<pi>)\<close>. The source
  multiplies by \<open>60.0/2.0/3.14159\<close>. For a motor turning at \<open>1\<close> rad/s the printed value
  is therefore not \<open>60 / (2 \<pi>)\<close>.
\<close>

theorem rpm_factor_counterexample:
  "print_state_line 0
     [\<lparr>m_i = 0, m_omega = 1, m_u = 0, m_i_prev = 0, m_omega_prev = 0, m_u_prev = 0\<rparr>,
      \<lparr>m_i = 0, m_omega = 1, m_u = 0, m_i_prev = 0, m_omega_prev = 0, m_u_prev = 0\<rparr>]
     \<lparr>d_q = 0, d_theta = 0, d_q_prev = 0, d_theta_prev = 0\<rparr> ! 3
   \<noteq> 1 * 60 / (2 * pi)"
  using RADPS2RPM_not_exact by (simp add: print_state_line_def RIGHT_def)

text \<open>
  What holds instead: every line holds the time, the two currents, the two angular
  velocities multiplied by \<open>60/2/3.14159\<close>, the rate and the attitude, the last five and
  the currents as they are in the state; and a run that ends has printed exactly these
  lines for the states after \<open>0, ..., n\<close> passes.
\<close>

theorem rpm_factor:
  "print_state_line t [mR, mL] d =
     [t, m_i mR, m_i mL, m_omega mR * (60 / 2 / 3.14159), m_omega mL * (60 / 2 / 3.14159),
      d_q d, d_theta d] \<and>
   (0 < h_step c \<longrightarrow>
     (\<exists>out n. drone_sim c = Some out \<and>
        out = map (\<lambda>k. case sim_state_at c k of (t, motor, drone) \<Rightarrow>
                [t, m_i (motor ! RIGHT), m_i (motor ! LEFT),
                 m_omega (motor ! RIGHT) * (60 / 2 / 3.14159),
                 m_omega (motor ! LEFT) * (60 / 2 / 3.14159),
                 d_q drone, d_theta drone]) [0 ..< Suc n]))"
proof -
  have run: "\<exists>out n. drone_sim c = Some out \<and>
        out = map (\<lambda>k. case sim_state_at c k of (t, motor, drone) \<Rightarrow>
                [t, m_i (motor ! RIGHT), m_i (motor ! LEFT),
                 m_omega (motor ! RIGHT) * (60 / 2 / 3.14159),
                 m_omega (motor ! LEFT) * (60 / 2 / 3.14159),
                 d_q drone, d_theta drone]) [0 ..< Suc n]" if "0 < h_step c"
  proof -
    from drone_sim_terminates [OF that] obtain out where out: "drone_sim c = Some out"
      by blast
    from drone_sim_char [OF out] obtain n where
      "out = map (\<lambda>k. line_of (sim_state_at c k)) [0 ..< Suc n]" by blast
    then have "out = map (\<lambda>k. case sim_state_at c k of (t, motor, drone) \<Rightarrow>
                [t, m_i (motor ! RIGHT), m_i (motor ! LEFT),
                 m_omega (motor ! RIGHT) * (60 / 2 / 3.14159),
                 m_omega (motor ! LEFT) * (60 / 2 / 3.14159),
                 d_q drone, d_theta drone]) [0 ..< Suc n]"
      by (simp add: print_state_line_def RADPS2RPM_def case_prod_beta del: upt_Suc)
    with out show ?thesis by blast
  qed
  have "print_state_line t [mR, mL] d =
     [t, m_i mR, m_i mL, m_omega mR * (60 / 2 / 3.14159), m_omega mL * (60 / 2 / 3.14159),
      d_q d, d_theta d]"
    by (simp add: print_state_line_def RADPS2RPM_def RIGHT_def LEFT_def)
  with run show ?thesis by blast
qed

theorem rpm_factor_witness:
  "0 < h_step nominal \<and>
   (\<exists>out n. drone_sim nominal = Some out \<and>
        out = map (\<lambda>k. case sim_state_at nominal k of (t, motor, drone) \<Rightarrow>
                [t, m_i (motor ! RIGHT), m_i (motor ! LEFT),
                 m_omega (motor ! RIGHT) * (60 / 2 / 3.14159),
                 m_omega (motor ! LEFT) * (60 / 2 / 3.14159),
                 d_q drone, d_theta drone]) [0 ..< Suc n])"
proof -
  have h: "0 < h_step nominal" by (simp add: nominal_def)
  with rpm_factor [of _ _ _ _ nominal] show ?thesis by blast
qed

subsection \<open>The voltages stay as initialised\<close>

text \<open>
  Claim C9. One pass through the loop body leaves the field \<open>u\<close> of both motors as it
  was. Hence at the head of the loop after any number \<open>n\<close> of passes the two fields hold
  the voltages set at initialisation, and the copies \<open>u_\<close> that \<open>save_state\<close> then makes
  for the next pass hold them too.
\<close>

theorem voltage_unchanged:
  "(case loop_body c h (t, [mR, mL], d) of (t', motor', d') \<Rightarrow>
      m_u (motor' ! RIGHT) = m_u mR \<and> m_u (motor' ! LEFT) = m_u mL) \<and>
   (case sim_state_at c n of (t, motor, drone) \<Rightarrow>
      m_u (motor ! RIGHT) = u_right c \<and> m_u (motor ! LEFT) = u_left c \<and>
      m_u_prev (fst (save_state motor drone) ! RIGHT) = u_right c \<and>
      m_u_prev (fst (save_state motor drone) ! LEFT) = u_left c)"
proof -
  obtain mR' mL' d' where
    s: "sim_state_at c n = (real n * h_step c, [mR', mL'], d')"
    and u: "m_u mR' = u_right c" "m_u mL' = u_left c"
    using sim_state_at_voltage [of c n] by blast
  show ?thesis
    by (simp add: loop_body_two s u save_state_two RIGHT_def LEFT_def)
qed

theorem voltage_unchanged_witness:
  "(case sim_state_at nominal 3 of (t, motor, drone) \<Rightarrow>
      m_u (motor ! RIGHT) = 7.5 \<and> m_u (motor ! LEFT) = 7.4 \<and>
      m_u_prev (fst (save_state motor drone) ! RIGHT) = 7.5 \<and>
      m_u_prev (fst (save_state motor drone) ! LEFT) = 7.4)"
  using voltage_unchanged [where c = nominal and n = 3]
  by (simp add: nominal_def)

subsection \<open>The drone is integrated by Euler steps\<close>

text \<open>
  Claim C10. The derivatives of the drone's rate and attitude ignore their state and time
  arguments, so the four stages of \<open>rk4\<close> are equal and the result is one Euler step:
  \<open>q + h (Ct omegaR\<^sup>2 - Ct omegaL\<^sup>2) lcpt / Jcpt\<close> and \<open>theta + h q\<close>, both for the
  integrator alone and for the drone after one pass through the loop body.
\<close>

theorem drone_update_is_euler:
  "q_dot c q t [omegaR, omegaL] = q_dot c q' t' [omegaR, omegaL] \<and>
   theta_dot theta t [q] = theta_dot theta' t' [q] \<and>
   rk4 (q_dot c) q t h 2 [omegaR, omegaL] =
     q + h * (Ct c * omegaR\<^sup>2 - Ct c * omegaL\<^sup>2) * lcpt c / Jcpt c \<and>
   rk4 theta_dot theta t h 1 [q] = theta + h * q \<and>
   (case loop_body c h (t, [mR, mL], d) of (t', motor', d') \<Rightarrow>
      d_q d' = d_q d + h * (Ct c * (m_omega mR)\<^sup>2 - Ct c * (m_omega mL)\<^sup>2) * lcpt c / Jcpt c \<and>
      d_theta d' = d_theta d + h * d_q d)"
  by (simp add: loop_body_two rk4_q_dot rk4_theta_dot q_dot_def theta_dot_def Let_def
      power2_eq_square)

theorem drone_update_is_euler_witness:
  "rk4 (q_dot nominal) 3 0 0.0001 2 [200, 100] = 3 + 0.0001 * (0.14 - 0.035) * 0.09 / 0.006 \<and>
   rk4 theta_dot 1 0 0.0001 1 [3] = 1 + 0.0001 * 3"
  using drone_update_is_euler [where c = nominal and q = 3 and t = 0 and h = "0.0001"
      and omegaR = 200 and omegaL = 100 and theta = 1]
  by (simp add: nominal_def)

end
